theory Spec2Isabelle
  imports Complex_Main
begin

section \<open>The Python library operations the connector relies on\<close>

text \<open>
  The two source files, \<^verbatim>\<open>AsyncConnector.py\<close> (class \<^verbatim>\<open>AsyncConnector\<close>) and
  \<^verbatim>\<open>async_connector.py\<close> (class \<^verbatim>\<open>Connector\<close>), use a handful of built-in string
  operations. They are modelled here on \<open>string\<close>: a Python \<^verbatim>\<open>str\<close> whose code points
  lie below 256, one character for each. Text mode is the POSIX one, where \<^verbatim>\<open>'\n'\<close>
  is written as the single character LF.
\<close>

definition LF :: char where
  "LF = CHR 0x0A"

definition CR :: char where
  "CR = CHR 0x0D"

text \<open>\<^verbatim>\<open>sep.join(xs)\<close>\<close>

fun str_join :: "string \<Rightarrow> string list \<Rightarrow> string" where
  "str_join sep [] = []"
| "str_join sep [x] = x"
| "str_join sep (x # y # ys) = x @ sep @ str_join sep (y # ys)"

text \<open>\<^verbatim>\<open>s.split(sep)\<close> for a one-character separator: never the empty list.\<close>

fun str_split :: "char \<Rightarrow> string \<Rightarrow> string list" where
  "str_split sep [] = [[]]"
| "str_split sep (c # cs) =
     (if c = sep then [] # str_split sep cs
      else (case str_split sep cs of [] \<Rightarrow> [[c]] | f # fs \<Rightarrow> (c # f) # fs))"

text \<open>
  Reading in text mode translates \<^verbatim>\<open>'\r\n'\<close> and a lone \<^verbatim>\<open>'\r'\<close> to \<^verbatim>\<open>'\n'\<close>
  (universal newlines); \<^verbatim>\<open>readlines()\<close> then cuts after every \<^verbatim>\<open>'\n'\<close> and keeps it.
\<close>

fun universal_newlines :: "string \<Rightarrow> string" where
  "universal_newlines [] = []"
| "universal_newlines [c] = (if c = CR then [LF] else [c])"
| "universal_newlines (c # d # ds) =
     (if c = CR \<and> d = LF then LF # universal_newlines ds
      else if c = CR then LF # universal_newlines (d # ds)
      else c # universal_newlines (d # ds))"

fun cut_lines :: "string \<Rightarrow> string list" where
  "cut_lines [] = []"
| "cut_lines (c # cs) =
     (if c = LF then [c] # cut_lines cs
      else (case cut_lines cs of [] \<Rightarrow> [[c]] | l # ls \<Rightarrow> (c # l) # ls))"

definition readlines :: "string \<Rightarrow> string list" where
  "readlines content = cut_lines (universal_newlines content)"

text \<open>\<^verbatim>\<open>str(n)\<close> for an integer: decimal digits, a minus sign when negative.
  (CPython refuses to print an integer of more than 4300 digits; counters of that size
  are not considered.)\<close>

fun str_nat :: "nat \<Rightarrow> string" where
  "str_nat n =
     (if n < 10 then [''0123456789'' ! n]
      else str_nat (n div 10) @ [''0123456789'' ! (n mod 10)])"

declare str_nat.simps [simp del]

definition str_int :: "int \<Rightarrow> string" where
  "str_int i = (if i < 0 then CHR ''-'' # str_nat (nat (- i)) else str_nat (nat i))"

text \<open>
  \<^verbatim>\<open>int(s)\<close> for a string, as CPython 3.11 computes it. Whitespace around the
  number is skipped: the six characters of C's \<^verbatim>\<open>isspace\<close>, and the two
  white-space code points between 128 and 255 (NEL and the no-break space), which
  \<^verbatim>\<open>int\<close> turns into spaces first. The separators 0x1C to 0x1F are not skipped. Then
  one sign is allowed, then decimal digits, single underscores allowed between digits;
  no code point between 128 and 255 is a decimal digit. A number of more than
  \<^verbatim>\<open>sys.get_int_max_str_digits()\<close> digits is refused, 4300 unless the limit was
  changed. \<open>None\<close> stands for ValueError, the only exception \<^verbatim>\<open>int\<close> raises on a
  string.
\<close>

definition is_space :: "char \<Rightarrow> bool" where
  "is_space c = (c \<in> set [CHR 0x09, CHR 0x0A, CHR 0x0B, CHR 0x0C, CHR 0x0D, CHR 0x20,
                            CHR 0x85, CHR 0xA0])"

definition max_str_digits :: nat where
  "max_str_digits = 4300"

definition strip :: "string \<Rightarrow> string" where
  "strip s = rev (dropWhile is_space (rev (dropWhile is_space s)))"

definition digit_val :: "char \<Rightarrow> nat option" where
  "digit_val c =
     (let k = of_char c :: nat in if 48 \<le> k \<and> k \<le> 57 then Some (k - 48) else None)"

text \<open>The digits after a digit: \<open>acc\<close> is the value read so far.\<close>

fun digits_tail :: "nat \<Rightarrow> string \<Rightarrow> nat option" where
  "digits_tail acc [] = Some acc"
| "digits_tail acc [c] =
     (case digit_val c of Some d \<Rightarrow> Some (10 * acc + d) | None \<Rightarrow> None)"
| "digits_tail acc (c # d # ds) =
     (case digit_val c of
        Some v \<Rightarrow> digits_tail (10 * acc + v) (d # ds)
      | None \<Rightarrow>
          if c = CHR ''_'' then
            (case digit_val d of
               Some v \<Rightarrow> digits_tail (10 * acc + v) ds
             | None \<Rightarrow> None)
          else None)"

definition digits :: "string \<Rightarrow> nat option" where
  "digits s =
     (case s of
        [] \<Rightarrow> None
      | c # cs \<Rightarrow> (case digit_val c of Some d \<Rightarrow> digits_tail d cs | None \<Rightarrow> None))"

definition py_int :: "string \<Rightarrow> int option" where
  "py_int s =
     (case strip s of
        [] \<Rightarrow> None
      | c # cs \<Rightarrow>
          (let body = (if c = CHR ''-'' \<or> c = CHR ''+'' then cs else c # cs) in
           case digits body of
             None \<Rightarrow> None
           | Some n \<Rightarrow>
               if max_str_digits < length (filter (\<lambda>d. d \<noteq> CHR ''_'') body) then None
               else Some (if c = CHR ''-'' then - int n else int n)))"

text \<open>\<^verbatim>\<open>sub in s\<close> on strings.\<close>

fun startswith :: "string \<Rightarrow> string \<Rightarrow> bool" where
  "startswith s [] = True"
| "startswith [] (p # ps) = False"
| "startswith (c # cs) (p # ps) = (c = p \<and> startswith cs ps)"

fun str_in :: "string \<Rightarrow> string \<Rightarrow> bool" where
  "str_in sub [] = (sub = [])"
| "str_in sub (c # cs) = (startswith (c # cs) sub \<or> str_in sub cs)"

section \<open>Rows of the log\<close>

text \<open>
  A row is the Python list the source builds: integers, floats, strings and booleans,
  written with \<^verbatim>\<open>';'.join(map(str, row))\<close>. How a float prints (\<^verbatim>\<open>str\<close> of a
  float) is a parameter.
\<close>

datatype cell = I int | F real | S string | B bool

type_synonym row = "cell list"

fun str :: "(real \<Rightarrow> string) \<Rightarrow> cell \<Rightarrow> string" where
  "str sf (I i) = str_int i"
| "str sf (F x) = sf x"
| "str sf (S s) = s"
| "str sf (B b) = (if b then ''True'' else ''False'')"

text \<open>The columns of a row, by position.\<close>

definition row_call_id :: "row \<Rightarrow> cell" where
  "row_call_id r = r ! 0"

definition row_response_size :: "row \<Rightarrow> cell" where
  "row_response_size r = r ! 6"

definition row_success :: "row \<Rightarrow> cell" where
  "row_success r = r ! 8"

section \<open>The connector and its environment\<close>

text \<open>
  Exceptions, by the handler of \<^verbatim>\<open>AsyncConnector.get\<close> that catches them:
  \<^verbatim>\<open>aiohttp.ClientConnectionError\<close>, \<^verbatim>\<open>asyncio.TimeoutError\<close>, and every other
  subclass of \<^verbatim>\<open>Exception\<close>. TypeError and NameError are the two the source raises
  itself; \<open>OtherException\<close> carries the name of any other one (a decoding error of
  aiohttp, say). What is not a subclass of \<^verbatim>\<open>Exception\<close> (cancellation, a keyboard
  interrupt) and errors of the file system on writing the log are outside the model.
\<close>

datatype exn = ClientConnectionError | TimeoutError | TypeError | NameError
  | OtherException string

text \<open>
  What the HTTP client hands back: the status, \<^verbatim>\<open>str(response.url)\<close>,
  \<^verbatim>\<open>response.headers.get('Content-Type')\<close> (\<open>None\<close> when the header is missing), and
  what awaiting \<^verbatim>\<open>response.json()\<close> and \<^verbatim>\<open>response.text()\<close> gives or raises.
  \<open>'j\<close> is the type of decoded JSON values.
\<close>

record 'j response =
  status :: int
  final_url :: string
  content_type :: "string option"
  body_json :: "exn + 'j"
  body_text :: "exn + string"

text \<open>
  One pass of the loop as the environment decides it: the clock at the start, what
  \<^verbatim>\<open>session.get(url, timeout=self.timeout)\<close> does, the clock when the response has
  arrived, and the clock in the handler (\<^verbatim>\<open>finally\<close> resp. \<^verbatim>\<open>except\<close>).
\<close>

record 'j attempt =
  t_start :: real
  outcome :: "exn + 'j response"
  t_arrived :: real
  t_handler :: real

text \<open>Library functions taken as parameters: \<^verbatim>\<open>json.dumps\<close>,
  \<^verbatim>\<open>traceback.format_exc\<close> and \<^verbatim>\<open>str\<close> on floats.\<close>

record 'j py =
  dumps :: "'j \<Rightarrow> string"
  format_exc :: "exn \<Rightarrow> string"
  str_float :: "real \<Rightarrow> string"

datatype event = Request | Wrote row | Slept real

text \<open>
  The object: \<^verbatim>\<open>self.n_tries\<close>, \<^verbatim>\<open>self.timeout\<close>, \<^verbatim>\<open>self.call_id\<close>
  (\<^verbatim>\<open>self.id\<close> in \<^verbatim>\<open>Connector\<close>) and the contents of the file behind \<^verbatim>\<open>self.log\<close>
  (every write is flushed at once). \<open>trace\<close> is a ghost field: the requests, writes and
  sleeps performed so far, in order.
\<close>

record connector =
  n_tries :: int
  timeout :: real
  call_id :: int
  logfile :: string
  trace :: "event list"

datatype 'a ctl = Continue | Return 'a

datatype 'j payload = Json 'j | Text string

subsection \<open>Construction\<close>

definition header :: "string list" where
  "header = [''call_id'', ''project'', ''t'', ''delta_t'', ''url'', ''redirect_url'',
             ''response_size'', ''response_code'', ''success'', ''error'']"

definition Connector_header :: "string list" where
  "Connector_header = [''id'', ''project'', ''t'', ''delta_t'', ''url'', ''redirect_url'',
             ''response_size'', ''response_code'', ''success'', ''error'']"

text \<open>
  \<^verbatim>\<open>__init__\<close>, the same in both classes but for the first column's name. The file
  system is what is at the path: \<open>None\<close> when there is no such file, else what reading
  the file in text mode gives, its text or the exception raised (UnicodeDecodeError,
  when its bytes are no text in the encoding of the locale). The file is opened (created
  or truncated with the header, or left as it is), then read back to find the next call
  id; \<^verbatim>\<open>f.readlines()\<close> is outside the \<^verbatim>\<open>try\<close>, so what it raises leaves
  \<^verbatim>\<open>__init__\<close>, while the ValueError of \<^verbatim>\<open>int\<close> is caught.
\<close>

definition open_log :: "string list \<Rightarrow> (exn + string) option \<Rightarrow> bool \<Rightarrow> exn + string" where
  "open_log hdr file overwrite_log =
     (case file of
        Some old \<Rightarrow> if overwrite_log then Inr (str_join '';'' hdr @ [LF]) else old
      | None \<Rightarrow> Inr (str_join '';'' hdr @ [LF]))"

definition next_call_id :: "string \<Rightarrow> int" where
  "next_call_id content =
     (let lines = readlines content in
      if length lines \<le> 1 then 0
      else
        (let last_line = last lines;
             last_id = (case str_split CHR '';'' last_line of [] \<Rightarrow> [] | f # fs \<Rightarrow> f)
         in case py_int last_id of Some i \<Rightarrow> i + 1 | None \<Rightarrow> 0))"

definition init :: "string list \<Rightarrow> (exn + string) option \<Rightarrow> bool \<Rightarrow> int \<Rightarrow> real
    \<Rightarrow> exn + connector" where
  "init hdr file overwrite_log tries tmo =
     (case open_log hdr file overwrite_log of
        Inl e \<Rightarrow> Inl e
      | Inr content \<Rightarrow>
          Inr \<lparr>n_tries = tries, timeout = tmo, call_id = next_call_id content,
               logfile = content, trace = []\<rparr>)"

definition AsyncConnector_init :: "(exn + string) option \<Rightarrow> bool \<Rightarrow> int \<Rightarrow> real
    \<Rightarrow> exn + connector" where
  "AsyncConnector_init = init header"

definition Connector_init :: "(exn + string) option \<Rightarrow> bool \<Rightarrow> int \<Rightarrow> real
    \<Rightarrow> exn + connector" where
  "Connector_init = init Connector_header"

subsection \<open>Effects\<close>

definition rate_limit :: "real \<Rightarrow> connector \<Rightarrow> connector" where
  "rate_limit delay c = c\<lparr>trace := trace c @ [Slept delay]\<rparr>"

text \<open>\<^verbatim>\<open>self.log.write('\n' + ';'.join(map(str, row))); self.log.flush()\<close>\<close>

definition write_row :: "'j py \<Rightarrow> row \<Rightarrow> connector \<Rightarrow> connector" where
  "write_row py r c =
     c\<lparr>logfile := logfile c @ LF # str_join '';'' (map (str (str_float py)) r),
       trace := trace c @ [Wrote r]\<rparr>"

text \<open>The rows written, read off the trace.\<close>

fun written :: "event list \<Rightarrow> row list" where
  "written [] = []"
| "written (Wrote r # es) = r # written es"
| "written (Request # es) = written es"
| "written (Slept d # es) = written es"

definition rows :: "connector \<Rightarrow> row list" where
  "rows c = written (trace c)"

subsection \<open>\<^verbatim>\<open>AsyncConnector.get\<close>\<close>

text \<open>Lines 121-128: the content type decides how the body is decoded and measured.
  \<^verbatim>\<open>'json' in None\<close> raises TypeError.\<close>

definition decode :: "'j py \<Rightarrow> 'j response \<Rightarrow> exn + ('j payload \<times> nat)" where
  "decode py response =
     (case content_type response of
        None \<Rightarrow> Inl TypeError
      | Some ct \<Rightarrow>
          if str_in ''json'' ct then
            (case body_json response of
               Inl e \<Rightarrow> Inl e
             | Inr r \<Rightarrow> Inr (Json r, length (dumps py r)))
          else
            (case body_text response of
               Inl e \<Rightarrow> Inl e
             | Inr r \<Rightarrow> Inr (Text r, length r)))"

text \<open>
  Lines 109-150, the body of the \<^verbatim>\<open>try\<close>: it ends by raising, by \<^verbatim>\<open>continue\<close> or
  by \<^verbatim>\<open>return r\<close>. The call id is taken before the body is decoded; the row is
  written only on the way to \<^verbatim>\<open>return\<close>.
\<close>

definition get_try :: "'j py \<Rightarrow> string \<Rightarrow> string \<Rightarrow> 'j attempt \<Rightarrow> connector
    \<Rightarrow> (exn + 'j payload ctl) \<times> connector" where
  "get_try py url project_name a c =
     (case outcome a of
        Inl e \<Rightarrow> (Inl e, c)
      | Inr response \<Rightarrow>
          (let current_call_id = call_id c;
               c1 = c\<lparr>call_id := call_id c + 1\<rparr>
           in case decode py response of
                Inl e \<Rightarrow> (Inl e, c1)
              | Inr (r, sz) \<Rightarrow>
                  (let row = [I current_call_id, S project_name, F (t_start a),
                              F (t_arrived a - t_start a), S url, S (final_url response),
                              I (int sz), I (status response), B True, S '''']
                   in if status response \<ge> 500
                      then (Inr Continue, rate_limit (timeout c1) c1)
                      else (Inr (Return r), write_row py row c1))))"

text \<open>
  Lines 152-162, the handlers: they set \<^verbatim>\<open>error\<close> and \<^verbatim>\<open>success\<close>. When the body
  did not raise, both still hold what lines 112-113 gave them.
\<close>

definition get_except :: "'j py \<Rightarrow> (exn + 'j payload ctl) \<Rightarrow> bool \<times> string" where
  "get_except py res =
     (case res of
        Inl ClientConnectionError \<Rightarrow> (False, ''Connection error'')
      | Inl TimeoutError \<Rightarrow> (False, ''Timeout error'')
      | Inl e \<Rightarrow> (False, format_exc py e)
      | Inr k \<Rightarrow> (True, ''''))"

text \<open>
  Lines 164-187, the \<^verbatim>\<open>finally\<close> clause: Python runs it however the body was left,
  also on \<^verbatim>\<open>continue\<close> and on \<^verbatim>\<open>return\<close>.
\<close>

definition get_finally :: "'j py \<Rightarrow> string \<Rightarrow> string \<Rightarrow> 'j attempt \<Rightarrow> bool \<times> string
    \<Rightarrow> connector \<Rightarrow> connector" where
  "get_finally py url project_name a se c =
     (let current_call_id = call_id c;
          c1 = c\<lparr>call_id := call_id c + 1\<rparr>;
          row = [I current_call_id, S project_name, F (t_start a),
                 F (t_handler a - t_start a), S url, S '''', I 0, S '''',
                 B (fst se), S (snd se)]
      in rate_limit (timeout c1) (write_row py row c1))"

text \<open>One pass of the loop.\<close>

definition get_attempt :: "'j py \<Rightarrow> string \<Rightarrow> string \<Rightarrow> 'j attempt \<Rightarrow> connector
    \<Rightarrow> 'j payload ctl \<times> connector" where
  "get_attempt py url project_name a c =
     (case get_try py url project_name a (c\<lparr>trace := trace c @ [Request]\<rparr>) of
        (res, c1) \<Rightarrow>
          (case res of Inr (Return r) \<Rightarrow> Return r | _ \<Rightarrow> Continue,
           get_finally py url project_name a (get_except py res) c1))"

text \<open>The loop over \<^verbatim>\<open>range(self.n_tries)\<close>; falling out of it returns \<^verbatim>\<open>None\<close>.\<close>

fun get_loop :: "'j py \<Rightarrow> string \<Rightarrow> string \<Rightarrow> 'j attempt list \<Rightarrow> connector
    \<Rightarrow> 'j payload option \<times> connector" where
  "get_loop py url project_name [] c = (None, c)"
| "get_loop py url project_name (a # rest) c =
     (case get_attempt py url project_name a c of
        (Return r, c') \<Rightarrow> (Some r, c')
      | (Continue, c') \<Rightarrow> get_loop py url project_name rest c')"

text \<open>\<open>session k\<close> is what the \<open>k\<close>-th request of this call meets.\<close>

definition AsyncConnector_get :: "'j py \<Rightarrow> (nat \<Rightarrow> 'j attempt) \<Rightarrow> string \<Rightarrow> string
    \<Rightarrow> connector \<Rightarrow> 'j payload option \<times> connector" where
  "AsyncConnector_get py session url project_name c =
     get_loop py url project_name (map session [0..<nat (n_tries c)]) c"

subsection \<open>\<^verbatim>\<open>Connector.get\<close>\<close>

text \<open>
  In \<^verbatim>\<open>async_connector.py\<close>, \<^verbatim>\<open>rate_limit\<close> is defined in the class body and called
  by its bare name inside \<^verbatim>\<open>get\<close>. A method body does not see the names of its class,
  and the module binds no such global: evaluating the name raises NameError, before
  the delay \<^verbatim>\<open>self.timeout * n ** 2\<close> is computed.
\<close>

definition Connector_rate_limit :: "real \<Rightarrow> connector \<Rightarrow> exn option \<times> connector" where
  "Connector_rate_limit delay c = (Some NameError, c)"

text \<open>Lines 107-138, the body of the \<^verbatim>\<open>try\<close>; it returns the triple
  \<^verbatim>\<open>r, response_code, call_id\<close>.\<close>

definition Connector_try :: "'j py \<Rightarrow> string \<Rightarrow> string \<Rightarrow> nat \<Rightarrow> 'j attempt \<Rightarrow> connector
    \<Rightarrow> (exn + ('j \<times> int \<times> int) ctl) \<times> connector" where
  "Connector_try py url project_name n a c =
     (case outcome a of
        Inl e \<Rightarrow> (Inl e, c)
      | Inr response \<Rightarrow>
          (case body_json response of
             Inl e \<Rightarrow> (Inl e, c)
           | Inr r \<Rightarrow>
               (let sz = length (dumps py r);
                    cid = call_id c;
                    c1 = c\<lparr>call_id := call_id c + 1\<rparr>;
                    row = [I cid, S project_name, F (t_start a),
                           F (t_arrived a - t_start a), S url, S (final_url response),
                           I (int sz), I (status response), B True, S '''']
                in if status response \<ge> 500
                   then (case Connector_rate_limit (timeout c1 * real (n ^ 2)) c1 of
                           (Some e, c2) \<Rightarrow> (Inl e, c2)
                         | (None, c2) \<Rightarrow> (Inr Continue, c2))
                   else (Inr (Return (r, status response, cid)), write_row py row c1))))"

text \<open>Lines 140-165, the handler of \<^verbatim>\<open>except Exception\<close>: it writes the row of the
  failure, then calls \<^verbatim>\<open>rate_limit\<close>; what the handler raises itself leaves \<^verbatim>\<open>get\<close>.\<close>

definition Connector_except :: "'j py \<Rightarrow> string \<Rightarrow> string \<Rightarrow> nat \<Rightarrow> 'j attempt \<Rightarrow> exn
    \<Rightarrow> connector \<Rightarrow> exn option \<times> connector" where
  "Connector_except py url project_name n a e c =
     (let cid = call_id c;
          c1 = c\<lparr>call_id := call_id c + 1\<rparr>;
          row = [I cid, S project_name, F (t_start a), F (t_handler a - t_start a),
                 S url, S '''', I 0, S '''', B False, S (format_exc py e)]
      in Connector_rate_limit (timeout c1 * real (n ^ 2)) (write_row py row c1))"

text \<open>The loop over \<^verbatim>\<open>range(self.n_tries)\<close>. \<open>Inl\<close> is an exception that leaves
  \<^verbatim>\<open>get\<close>; \<open>Inr None\<close> is falling out of the loop.\<close>

fun Connector_loop :: "'j py \<Rightarrow> string \<Rightarrow> string \<Rightarrow> (nat \<times> 'j attempt) list \<Rightarrow> connector
    \<Rightarrow> (exn + ('j \<times> int \<times> int) option) \<times> connector" where
  "Connector_loop py url project_name [] c = (Inr None, c)"
| "Connector_loop py url project_name ((n, a) # rest) c =
     (case Connector_try py url project_name n a (c\<lparr>trace := trace c @ [Request]\<rparr>) of
        (Inr (Return r), c1) \<Rightarrow> (Inr (Some r), c1)
      | (Inr Continue, c1) \<Rightarrow> Connector_loop py url project_name rest c1
      | (Inl e, c1) \<Rightarrow>
          (case Connector_except py url project_name n a e c1 of
             (Some e', c2) \<Rightarrow> (Inl e', c2)
           | (None, c2) \<Rightarrow> Connector_loop py url project_name rest c2))"

definition Connector_get :: "'j py \<Rightarrow> (nat \<Rightarrow> 'j attempt) \<Rightarrow> string \<Rightarrow> string
    \<Rightarrow> connector \<Rightarrow> (exn + ('j \<times> int \<times> int) option) \<times> connector" where
  "Connector_get py session url project_name c =
     Connector_loop py url project_name
       (map (\<lambda>n. (n, session n)) [0..<nat (n_tries c)]) c"


section \<open>Reading a trace\<close>

text \<open>
  The sleeps between one request and the next: \<open>gaps_from acc es\<close> lists, for every
  request in \<open>es\<close>, the delays slept since the request before it (\<open>acc\<close> holds those
  slept so far); \<open>gaps\<close> drops the first entry, which is what came before the first
  request. Sleeps after the last request belong to no gap.
\<close>

fun gaps_from :: "real list \<Rightarrow> event list \<Rightarrow> real list list" where
  "gaps_from acc [] = []"
| "gaps_from acc (Request # es) = acc # gaps_from [] es"
| "gaps_from acc (Slept d # es) = gaps_from (acc @ [d]) es"
| "gaps_from acc (Wrote r # es) = gaps_from acc es"

definition gaps :: "event list \<Rightarrow> real list list" where
  "gaps es = tl (gaps_from [] es)"

text \<open>The delays slept in a stretch of the trace.\<close>

fun slept :: "event list \<Rightarrow> real list" where
  "slept [] = []"
| "slept (Slept d # es) = d # slept es"
| "slept (Request # es) = slept es"
| "slept (Wrote r # es) = slept es"

text \<open>The call ids of rows, as integers.\<close>

fun call_ids :: "row list \<Rightarrow> int list" where
  "call_ids [] = []"
| "call_ids ((I i # cs) # rs) = i # call_ids rs"
| "call_ids (r # rs) = call_ids rs"

text \<open>What a call added to the trace, and the rows it added to the log.\<close>

definition new_events :: "connector \<Rightarrow> connector \<Rightarrow> event list" where
  "new_events c c' = drop (length (trace c)) (trace c')"

definition new_rows :: "connector \<Rightarrow> connector \<Rightarrow> row list" where
  "new_rows c c' = drop (length (rows c)) (rows c')"

section \<open>Concrete runs\<close>

text \<open>
  A concrete library for the runs below: JSON values are integers, which
  \<^verbatim>\<open>json.dumps\<close> prints in decimal; the clock readings are whole numbers, which print
  with \<^verbatim>\<open>.0\<close>; \<^verbatim>\<open>traceback.format_exc()\<close> gives the usual lines, the last one
  naming the exception and ending in a newline.
\<close>

definition ex_exc_line :: "exn \<Rightarrow> string" where
  "ex_exc_line e =
     (case e of
        ClientConnectionError \<Rightarrow> ''aiohttp.client_exceptions.ClientConnectionError''
      | TimeoutError \<Rightarrow> ''TimeoutError''
      | TypeError \<Rightarrow> ''TypeError: argument of type 'NoneType' is not iterable''
      | NameError \<Rightarrow> ''NameError: name 'rate_limit' is not defined''
      | OtherException s \<Rightarrow> s)"

definition ex_format_exc :: "exn \<Rightarrow> string" where
  "ex_format_exc e =
     ''Traceback (most recent call last):'' @ [LF] @
     ''  File \"connector.py\", in get'' @ [LF] @
     ex_exc_line e @ [LF]"

definition ex_py :: "int py" where
  "ex_py = \<lparr>dumps = str_int, format_exc = ex_format_exc,
            str_float = (\<lambda>t. str_int \<lfloor>t\<rfloor> @ ''.0'')\<rparr>"

definition json_response :: "int \<Rightarrow> int response" where
  "json_response code =
     \<lparr>status = code, final_url = ''http://h/x'', content_type = Some ''application/json'',
      body_json = Inr 42, body_text = Inr ''42''\<rparr>"

definition text_response :: "int \<Rightarrow> int response" where
  "text_response code =
     \<lparr>status = code, final_url = ''http://h/x'', content_type = Some ''text/plain'',
      body_json = Inl (OtherException ''aiohttp.client_exceptions.ContentTypeError''),
      body_text = Inr ''overloaded''\<rparr>"

definition bare_response :: "int response" where
  "bare_response =
     \<lparr>status = 200, final_url = ''http://h/x'', content_type = None,
      body_json = Inl (OtherException ''aiohttp.client_exceptions.ContentTypeError''),
      body_text = Inr ''hello''\<rparr>"

text \<open>An attempt that starts at 100, gets its answer at 101 and reaches the handler
  at 102.\<close>

definition ex_attempt :: "exn + int response \<Rightarrow> int attempt" where
  "ex_attempt out = \<lparr>t_start = 100, outcome = out, t_arrived = 101, t_handler = 102\<rparr>"

text \<open>A connector on a log file that did not exist, with \<^verbatim>\<open>timeout=5\<close>.\<close>

definition fresh :: "int \<Rightarrow> connector" where
  "fresh tries = projr (AsyncConnector_init None False tries 5)"

definition fresh_Connector :: "int \<Rightarrow> connector" where
  "fresh_Connector tries = projr (Connector_init None False tries 5)"

text \<open>
  Two processes on one log file: the first makes one call, whose only attempt meets a
  response without a Content-Type header; the second reopens the file
  (\<^verbatim>\<open>overwrite_log=False\<close>) and makes the same call.
\<close>

definition first_run :: connector where
  "first_run =
     snd (AsyncConnector_get ex_py (\<lambda>k. ex_attempt (Inr bare_response)) ''http://h/x'' ''p''
            (fresh 1))"

definition reopened :: connector where
  "reopened = projr (AsyncConnector_init (Some (Inr (logfile first_run))) False 1 5)"

definition second_run :: connector where
  "second_run =
     snd (AsyncConnector_get ex_py (\<lambda>k. ex_attempt (Inr bare_response)) ''http://h/x'' ''p''
            reopened)"

text \<open>A call of three attempts: a 503 response, a timeout, a 200 response.\<close>

definition ex_session :: "nat \<Rightarrow> int attempt" where
  "ex_session k =
     (if k = 0 then ex_attempt (Inr (json_response 503))
      else if k = 1 then ex_attempt (Inl TimeoutError)
      else ex_attempt (Inr (json_response 200)))"

section \<open>Evaluation\<close>

lemmas string_ops =
  LF_def CR_def str_int_def str_nat.simps readlines_def py_int_def strip_def is_space_def
  digits_def digit_val_def max_str_digits_def

lemmas init_defs =
  AsyncConnector_init_def Connector_init_def init_def open_log_def next_call_id_def
  header_def Connector_header_def

lemmas get_defs =
  AsyncConnector_get_def get_attempt_def get_try_def get_except_def get_finally_def
  decode_def write_row_def rate_limit_def rows_def Let_def

lemmas Connector_defs =
  Connector_get_def Connector_try_def Connector_except_def Connector_rate_limit_def
  write_row_def rows_def Let_def

lemmas ex_defs =
  ex_py_def ex_format_exc_def ex_exc_line_def json_response_def text_response_def
  bare_response_def ex_attempt_def fresh_def fresh_Connector_def


lemma fresh_eval:
  "fresh tries =
     \<lparr>n_tries = tries, timeout = 5, call_id = 0,
      logfile = ''call_id;project;t;delta_t;url;redirect_url;response_size;response_code;success;error\<newline>'',
      trace = []\<rparr>"
  by (simp add: fresh_def init_defs string_ops)

lemma fresh_Connector_eval:
  "fresh_Connector tries =
     \<lparr>n_tries = tries, timeout = 5, call_id = 0,
      logfile = ''id;project;t;delta_t;url;redirect_url;response_size;response_code;success;error\<newline>'',
      trace = []\<rparr>"
  by (simp add: fresh_Connector_def init_defs string_ops)

text \<open>
  C1. A call whose only attempt meets a 200 response with a JSON body returns the
  payload, but the log gains two rows for that one attempt, under two call ids: the row of
  the response, then the row of the \<^verbatim>\<open>finally\<close> clause, which runs on \<^verbatim>\<open>return\<close> too.
\<close>

theorem success_writes_two_rows:
  "fst (AsyncConnector_get ex_py (\<lambda>k. ex_attempt (Inr (json_response 200)))
          ''http://h/x'' ''p'' (fresh 1)) = Some (Json 42)
   \<and> rows (snd (AsyncConnector_get ex_py (\<lambda>k. ex_attempt (Inr (json_response 200)))
          ''http://h/x'' ''p'' (fresh 1)))
     = [[I 0, S ''p'', F 100, F 1, S ''http://h/x'', S ''http://h/x'', I 2, I 200, B True, S ''''],
        [I 1, S ''p'', F 100, F 2, S ''http://h/x'', S '''', I 0, S '''', B True, S '''']]"
  by (simp add: fresh_eval get_defs ex_defs string_ops)

text \<open>
  C2. A call whose only attempt meets a 503 response logs that attempt as one row, and
  the row says \<^verbatim>\<open>success=True\<close>: the \<^verbatim>\<open>finally\<close> clause writes it with the value
  line 113 gave \<^verbatim>\<open>success\<close>.
\<close>

theorem server_error_logged_as_success:
  "AsyncConnector_get ex_py (\<lambda>k. ex_attempt (Inr (json_response 503)))
          ''http://h/x'' ''p'' (fresh 1)
   = (None,
      \<lparr>n_tries = 1, timeout = 5, call_id = 2,
       logfile = ''call_id;project;t;delta_t;url;redirect_url;response_size;response_code;success;error\<newline>\<newline>1;p;100.0;2.0;http://h/x;;0;;True;'',
       trace = [Request, Slept 5,
                Wrote [I 1, S ''p'', F 100, F 2, S ''http://h/x'', S '''', I 0, S '''', B True, S ''''],
                Slept 5]\<rparr>)"
  by (simp add: fresh_eval get_defs ex_defs string_ops)

text \<open>
  C3. \<^verbatim>\<open>Connector.get\<close> of \<^verbatim>\<open>async_connector.py\<close>, three tries allowed, the first
  request failing to connect: the handler logs the row, then its call of the unbound
  name \<^verbatim>\<open>rate_limit\<close> raises NameError, which leaves \<^verbatim>\<open>get\<close>; no second request is
  made.
\<close>

theorem Connector_get_raises_NameError:
  "Connector_get ex_py (\<lambda>k. ex_attempt (Inl ClientConnectionError))
          ''http://h/x'' ''p'' (fresh_Connector 3)
   = (Inl NameError,
      \<lparr>n_tries = 3, timeout = 5, call_id = 1,
       logfile = ''id;project;t;delta_t;url;redirect_url;response_size;response_code;success;error\<newline>\<newline>0;p;100.0;2.0;http://h/x;;0;;False;Traceback (most recent call last):\<newline>  File \"connector.py\", in get\<newline>aiohttp.client_exceptions.ClientConnectionError\<newline>'',
       trace = [Request,
                Wrote [I 0, S ''p'', F 100, F 2, S ''http://h/x'', S '''', I 0, S '''', B False,
                  S ''Traceback (most recent call last):\<newline>  File \"connector.py\", in get\<newline>aiohttp.client_exceptions.ClientConnectionError\<newline>'']]\<rparr>)"
  by (simp add: fresh_Connector_eval Connector_defs ex_defs string_ops upt_conv_Cons)

text \<open>
  C4. Two tries, both meeting a 503 response: the call returns \<^verbatim>\<open>None\<close> and the log
  gains two rows, both with \<^verbatim>\<open>success=True\<close>.
\<close>

theorem exhaustion_rows_say_success:
  "fst (AsyncConnector_get ex_py (\<lambda>k. ex_attempt (Inr (json_response 503)))
          ''http://h/x'' ''p'' (fresh 2)) = None
   \<and> map row_success (rows (snd (AsyncConnector_get ex_py
          (\<lambda>k. ex_attempt (Inr (json_response 503))) ''http://h/x'' ''p'' (fresh 2))))
     = [B True, B True]"
  by (simp add: fresh_eval get_defs ex_defs string_ops row_success_def upt_conv_Cons)

text \<open>
  C5. The first process logs one row, under call id 1, whose error text is a traceback:
  several lines, the last one naming the exception. The second process reads that last
  line, fails to parse \<^verbatim>\<open>TypeError: ...\<close> as an integer and restarts at 0; its one row
  is logged under call id 1 again. The file was written by the connector alone.
\<close>

theorem reopened_log_repeats_call_id:
  "map row_call_id (rows first_run) = [I 1]
   \<and> last (readlines (logfile first_run))
       = ''TypeError: argument of type 'NoneType' is not iterable\<newline>''
   \<and> call_id reopened = 0
   \<and> map row_call_id (rows second_run) = [I 1]"
  by (simp add: first_run_def second_run_def reopened_def fresh_eval get_defs ex_defs
      init_defs string_ops row_call_id_def)

text \<open>
  C9. A fresh log after one call whose only attempt failed to connect: the header line
  ends in a newline and the row starts with one, so the second line of the file is
  empty and the row is its third line.
\<close>

theorem fresh_log_has_empty_second_line:
  "logfile (snd (AsyncConnector_get ex_py (\<lambda>k. ex_attempt (Inl ClientConnectionError))
          ''http://h/x'' ''p'' (fresh 1)))
     = ''call_id;project;t;delta_t;url;redirect_url;response_size;response_code;success;error\<newline>\<newline>0;p;100.0;2.0;http://h/x;;0;;False;Connection error''
   \<and> readlines (logfile (snd (AsyncConnector_get ex_py
          (\<lambda>k. ex_attempt (Inl ClientConnectionError)) ''http://h/x'' ''p'' (fresh 1))))
     = [''call_id;project;t;delta_t;url;redirect_url;response_size;response_code;success;error\<newline>'',
        ''\<newline>'',
        ''0;p;100.0;2.0;http://h/x;;0;;False;Connection error'']"
  by (simp add: fresh_eval get_defs ex_defs string_ops)

text \<open>
  C7. \<^verbatim>\<open>timeout=5\<close>, three tries: a 503 response, a timeout, a 200 response. After
  the 503 response \<^verbatim>\<open>AsyncConnector.get\<close> sleeps twice before the next request, at
  line 144 and then at line 187 in the \<^verbatim>\<open>finally\<close> clause that \<^verbatim>\<open>continue\<close> runs: 10
  seconds, not the flat 5 that follow the timeout. \<^verbatim>\<open>Connector.get\<close> of
  \<^verbatim>\<open>async_connector.py\<close> meets the 503 response, raises NameError where it would sleep,
  and ends after its one request without having slept.
\<close>

theorem server_error_is_followed_by_two_sleeps:
  "gaps (new_events (fresh 3)
      (snd (AsyncConnector_get ex_py ex_session ''http://h/x'' ''p'' (fresh 3))))
     = [[5, 5], [5]]
   \<and> fst (Connector_get ex_py ex_session ''http://h/x'' ''p'' (fresh_Connector 3)) = Inl NameError
   \<and> gaps_from [] (trace (snd (Connector_get ex_py ex_session ''http://h/x'' ''p''
        (fresh_Connector 3)))) = [[]]
   \<and> slept (trace (snd (Connector_get ex_py ex_session ''http://h/x'' ''p''
        (fresh_Connector 3)))) = []"
  by (simp add: fresh_eval fresh_Connector_eval get_defs Connector_defs ex_defs ex_session_def
      string_ops upt_conv_Cons gaps_def new_events_def)

section \<open>One pass of the loop of \<^verbatim>\<open>AsyncConnector.get\<close>, case by case\<close>

lemma written_append: "written (es @ fs) = written es @ written fs"
  by (induction es rule: written.induct) simp_all


lemma get_attempt_raises:
  assumes "outcome a = Inl e"
  shows "get_attempt py url project_name a c =
     (let row = [I (call_id c), S project_name, F (t_start a), F (t_handler a - t_start a),
                 S url, S '''', I 0, S '''', B False, S (snd (get_except py (Inl e)))]
      in (Continue,
          c\<lparr>call_id := call_id c + 1,
            logfile := logfile c @ LF # str_join '';'' (map (str (str_float py)) row),
            trace := trace c @ [Request, Wrote row, Slept (timeout c)]\<rparr>))"
  using assms
  by (cases e) (simp_all add: get_attempt_def get_try_def get_finally_def get_except_def
      write_row_def rate_limit_def Let_def)

lemma get_attempt_undecoded:
  assumes "outcome a = Inr response" and "decode py response = Inl e"
  shows "get_attempt py url project_name a c =
     (let row = [I (call_id c + 1), S project_name, F (t_start a), F (t_handler a - t_start a),
                 S url, S '''', I 0, S '''', B False, S (snd (get_except py (Inl e)))]
      in (Continue,
          c\<lparr>call_id := call_id c + 2,
            logfile := logfile c @ LF # str_join '';'' (map (str (str_float py)) row),
            trace := trace c @ [Request, Wrote row, Slept (timeout c)]\<rparr>))"
  using assms
  by (cases e) (simp_all add: get_attempt_def get_try_def get_finally_def get_except_def
      write_row_def rate_limit_def Let_def)

lemma get_attempt_server_error:
  assumes "outcome a = Inr response" and "decode py response = Inr (r, sz)"
    and "status response \<ge> 500"
  shows "get_attempt py url project_name a c =
     (let row = [I (call_id c + 1), S project_name, F (t_start a), F (t_handler a - t_start a),
                 S url, S '''', I 0, S '''', B True, S '''']
      in (Continue,
          c\<lparr>call_id := call_id c + 2,
            logfile := logfile c @ LF # str_join '';'' (map (str (str_float py)) row),
            trace := trace c @ [Request, Slept (timeout c), Wrote row, Slept (timeout c)]\<rparr>))"
  using assms
  by (simp add: get_attempt_def get_try_def get_finally_def get_except_def
      write_row_def rate_limit_def Let_def)

lemma get_attempt_returns:
  assumes "outcome a = Inr response" and "decode py response = Inr (r, sz)"
    and "status response < 500"
  shows "get_attempt py url project_name a c =
     (let row = [I (call_id c), S project_name, F (t_start a), F (t_arrived a - t_start a),
                 S url, S (final_url response), I (int sz), I (status response), B True, S ''''];
          row' = [I (call_id c + 1), S project_name, F (t_start a), F (t_handler a - t_start a),
                 S url, S '''', I 0, S '''', B True, S '''']
      in (Return r,
          c\<lparr>call_id := call_id c + 2,
            logfile := logfile c @ LF # str_join '';'' (map (str (str_float py)) row)
                        @ LF # str_join '';'' (map (str (str_float py)) row'),
            trace := trace c @ [Request, Wrote row, Wrote row', Slept (timeout c)]\<rparr>))"
  using assms
  by (simp add: get_attempt_def get_try_def get_finally_def get_except_def
      write_row_def rate_limit_def Let_def)

lemma get_attempt_extends_trace:
  "\<exists>ws. trace (snd (get_attempt py url project_name a c)) = trace c @ Request # ws"
proof (cases "outcome a")
  case (Inl e)
  show ?thesis
    by (simp add: get_attempt_raises [OF Inl] Let_def)
next
  case (Inr response)
  show ?thesis
  proof (cases "decode py response")
    case (Inl e)
    show ?thesis
      by (simp add: get_attempt_undecoded [OF Inr Inl] Let_def)
  next
    case decoded: (Inr rs)
    obtain r sz where rs: "rs = (r, sz)" by (cases rs)
    show ?thesis
    proof (cases "status response \<ge> 500")
      case True
      show ?thesis
        by (simp add: get_attempt_server_error [OF Inr decoded [unfolded rs] True] Let_def)
    next
      case False
      then have "status response < 500" by simp
      from get_attempt_returns [OF Inr decoded [unfolded rs] this]
      show ?thesis
        by (simp add: Let_def)
    qed
  qed
qed

lemma get_loop_extends_trace:
  "\<exists>es. trace (snd (get_loop py url project_name as c)) = trace c @ es"
proof (induction as arbitrary: c)
  case Nil
  then show ?case by simp
next
  case (Cons a as)
  obtain k c1 where step: "get_attempt py url project_name a c = (k, c1)"
    by (cases "get_attempt py url project_name a c")
  from get_attempt_extends_trace [of py url project_name a c] step
  obtain ws where ws: "trace c1 = trace c @ Request # ws"
    by auto
  show ?case
  proof (cases k)
    case (Return r)
    then show ?thesis
      using ws by (simp add: step)
  next
    case Continue
    from Cons.IH [of c1]
    obtain es where "trace (snd (get_loop py url project_name as c1)) = trace c1 @ es" ..
    with Continue ws show ?thesis
      by (simp add: step)
  qed
qed

lemma get_loop_starts_with_request:
  "\<exists>es. trace (snd (get_loop py url project_name (b # rest) c)) = trace c @ Request # es"
proof -
  obtain k c1 where step: "get_attempt py url project_name b c = (k, c1)"
    by (cases "get_attempt py url project_name b c")
  from get_attempt_extends_trace [of py url project_name b c] step
  obtain ws where ws: "trace c1 = trace c @ Request # ws"
    by auto
  show ?thesis
  proof (cases k)
    case (Return r)
    then show ?thesis
      using ws by (simp add: step)
  next
    case Continue
    from get_loop_extends_trace [of py url project_name rest c1]
    obtain es where "trace (snd (get_loop py url project_name rest c1)) = trace c1 @ es" ..
    with Continue ws show ?thesis
      by (simp add: step)
  qed
qed

text \<open>
  C10. A response without a Content-Type header, whatever its status and body: the
  test \<^verbatim>\<open>'json' in content_type\<close> raises TypeError after the call id was taken, the
  catch-all handler takes it, and the \<^verbatim>\<open>finally\<close> clause logs one row under the next
  call id with \<^verbatim>\<open>success=False\<close>, size 0, empty response code and redirect URL and
  the traceback as error. The body is not decoded and nothing is returned. After the
  sleep the loop goes on with the attempts that remain: when there is one, the next
  thing in the trace is its request; when there is none, the call returns \<^verbatim>\<open>None\<close>.
\<close>

theorem missing_content_type_is_logged_as_failure:
  assumes "outcome a = Inr response" and "content_type response = None"
  shows "(let row = [I (call_id c + 1), S project_name, F (t_start a),
                     F (t_handler a - t_start a), S url, S '''', I 0, S '''', B False,
                     S (format_exc py TypeError)];
              c' = c\<lparr>call_id := call_id c + 2,
                     logfile := logfile c @ LF # str_join '';'' (map (str (str_float py)) row),
                     trace := trace c @ [Request, Wrote row, Slept (timeout c)]\<rparr>
          in get_attempt py url project_name a c = (Continue, c')
             \<and> get_loop py url project_name (a # rest) c = get_loop py url project_name rest c'
             \<and> take (length (trace c) + 4)
                  (trace (snd (get_loop py url project_name (a # b # rest) c)))
                = trace c @ [Request, Wrote row, Slept (timeout c), Request]
             \<and> get_loop py url project_name [a] c = (None, c'))"
proof -
  define row where "row = [I (call_id c + 1), S project_name, F (t_start a),
      F (t_handler a - t_start a), S url, S '''', I 0, S '''', B False,
      S (format_exc py TypeError)]"
  define c' where "c' = c\<lparr>call_id := call_id c + 2,
      logfile := logfile c @ LF # str_join '';'' (map (str (str_float py)) row),
      trace := trace c @ [Request, Wrote row, Slept (timeout c)]\<rparr>"
  have "decode py response = Inl TypeError"
    using assms(2) by (simp add: decode_def)
  from get_attempt_undecoded [OF assms(1) this, of url project_name c]
  have step: "get_attempt py url project_name a c = (Continue, c')"
    by (simp add: Let_def get_except_def row_def c'_def)
  then have loop: "get_loop py url project_name (a # xs) c = get_loop py url project_name xs c'"
    for xs
    by simp
  from get_loop_starts_with_request [of py url project_name b rest c']
  obtain es where "trace (snd (get_loop py url project_name (b # rest) c')) = trace c' @ Request # es" ..
  then have "trace (snd (get_loop py url project_name (a # b # rest) c))
      = (trace c @ [Request, Wrote row, Slept (timeout c), Request]) @ es"
    by (simp add: loop c'_def del: get_loop.simps)
  then have "take (length (trace c) + 4)
        (trace (snd (get_loop py url project_name (a # b # rest) c)))
      = trace c @ [Request, Wrote row, Slept (timeout c), Request]"
    by simp
  with step loop [of rest] loop [of "[]"] show ?thesis
    unfolding Let_def row_def [symmetric] c'_def [symmetric] by simp
qed

text \<open>The same at a 200 response with the body \<^verbatim>\<open>hello\<close> on a fresh log, followed by
  a second attempt: the row of the failure, the sleep, and the request of the second
  attempt.\<close>

theorem missing_content_type_witness:
  "outcome (ex_attempt (Inr bare_response)) = Inr bare_response
   \<and> content_type bare_response = None
   \<and> status bare_response = 200
   \<and> body_text bare_response = Inr ''hello''
   \<and> get_attempt ex_py ''http://h/x'' ''p'' (ex_attempt (Inr bare_response)) (fresh 3)
      = (Continue,
         \<lparr>n_tries = 3, timeout = 5, call_id = 2,
          logfile = ''call_id;project;t;delta_t;url;redirect_url;response_size;response_code;success;error\<newline>\<newline>1;p;100.0;2.0;http://h/x;;0;;False;Traceback (most recent call last):\<newline>  File \"connector.py\", in get\<newline>TypeError: argument of type 'NoneType' is not iterable\<newline>'',
          trace = [Request,
                   Wrote [I 1, S ''p'', F 100, F 2, S ''http://h/x'', S '''', I 0, S '''', B False,
                     S ''Traceback (most recent call last):\<newline>  File \"connector.py\", in get\<newline>TypeError: argument of type 'NoneType' is not iterable\<newline>''],
                   Slept 5]\<rparr>)
   \<and> take 4 (trace (snd (get_loop ex_py ''http://h/x'' ''p''
         [ex_attempt (Inr bare_response), ex_attempt (Inr (json_response 200))] (fresh 3))))
      = [Request,
         Wrote [I 1, S ''p'', F 100, F 2, S ''http://h/x'', S '''', I 0, S '''', B False,
           S ''Traceback (most recent call last):\<newline>  File \"connector.py\", in get\<newline>TypeError: argument of type 'NoneType' is not iterable\<newline>''],
         Slept 5,
         Request]"
proof -
  have h1: "outcome (ex_attempt (Inr bare_response)) = Inr bare_response"
    and h2: "content_type bare_response = None"
    and h3: "status bare_response = 200"
    and h4: "body_text bare_response = Inr ''hello''"
    by (simp_all add: ex_defs)
  note inst = missing_content_type_is_logged_as_failure [OF h1 h2,
      where c = "fresh 3" and project_name = "''p''" and url = "''http://h/x''" and py = ex_py
        and rest = "[]" and b = "ex_attempt (Inr (json_response 200))", unfolded Let_def]
  have f: "trace (fresh 3) = []" "timeout (fresh 3) = 5" "call_id (fresh 3) = 0"
    by (simp_all add: fresh_eval)
  have row: "[I (call_id (fresh 3) + 1), S ''p'', F (t_start (ex_attempt (Inr bare_response))),
        F (t_handler (ex_attempt (Inr bare_response)) - t_start (ex_attempt (Inr bare_response))),
        S ''http://h/x'', S '''', I 0, S '''', B False, S (format_exc ex_py TypeError)]
      = [I 1, S ''p'', F 100, F 2, S ''http://h/x'', S '''', I 0, S '''', B False,
         S ''Traceback (most recent call last):\<newline>  File \"connector.py\", in get\<newline>TypeError: argument of type 'NoneType' is not iterable\<newline>'']"
    by (simp add: f ex_py_def ex_format_exc_def ex_exc_line_def bare_response_def ex_attempt_def
        string_ops)
  have c': "fresh 3\<lparr>call_id := call_id (fresh 3) + 2,
        logfile := logfile (fresh 3) @ LF # str_join '';'' (map (str (str_float ex_py))
          [I 1, S ''p'', F 100, F 2, S ''http://h/x'', S '''', I 0, S '''', B False,
           S ''Traceback (most recent call last):\<newline>  File \"connector.py\", in get\<newline>TypeError: argument of type 'NoneType' is not iterable\<newline>'']),
        trace := trace (fresh 3) @ [Request,
          Wrote [I 1, S ''p'', F 100, F 2, S ''http://h/x'', S '''', I 0, S '''', B False,
           S ''Traceback (most recent call last):\<newline>  File \"connector.py\", in get\<newline>TypeError: argument of type 'NoneType' is not iterable\<newline>''],
          Slept (timeout (fresh 3))]\<rparr>
      = \<lparr>n_tries = 3, timeout = 5, call_id = 2,
          logfile = ''call_id;project;t;delta_t;url;redirect_url;response_size;response_code;success;error\<newline>\<newline>1;p;100.0;2.0;http://h/x;;0;;False;Traceback (most recent call last):\<newline>  File \"connector.py\", in get\<newline>TypeError: argument of type 'NoneType' is not iterable\<newline>'',
          trace = [Request,
                   Wrote [I 1, S ''p'', F 100, F 2, S ''http://h/x'', S '''', I 0, S '''', B False,
                     S ''Traceback (most recent call last):\<newline>  File \"connector.py\", in get\<newline>TypeError: argument of type 'NoneType' is not iterable\<newline>''],
                   Slept 5]\<rparr>"
    by (simp add: fresh_eval ex_py_def string_ops)
  from inst [unfolded row c'] show ?thesis
    using h1 h2 h3 h4 by (simp only: f list.size append_Nil add_0 simp_thms)
qed

lemma new_rows_trace:
  "new_rows c (c\<lparr>call_id := i, logfile := l, trace := trace c @ es\<rparr>) = written es"
  by (simp add: new_rows_def rows_def written_append)

text \<open>
  C8, as amended. In \<^verbatim>\<open>AsyncConnector.get\<close>, a response with a status below 500 that
  declares a content type: when the content type does not contain \<^verbatim>\<open>json\<close>, the call
  returns the decoded text and the row written for the response carries the length of
  that text as its size; when it does, the call returns the decoded JSON value and the
  size is the length of its \<^verbatim>\<open>json.dumps\<close>.
\<close>

theorem terminal_response_size:
  assumes "outcome a = Inr response" and "content_type response = Some ct"
    and "status response < 500"
  shows "(\<not> str_in ''json'' ct \<and> body_text response = Inr s \<longrightarrow>
            fst (get_attempt py url project_name a c) = Return (Text s)
            \<and> fst (get_loop py url project_name (a # rest) c) = Some (Text s)
            \<and> take 1 (new_rows c (snd (get_attempt py url project_name a c)))
                = [[I (call_id c), S project_name, F (t_start a), F (t_arrived a - t_start a),
                    S url, S (final_url response), I (int (length s)), I (status response),
                    B True, S '''']])
       \<and> (str_in ''json'' ct \<and> body_json response = Inr j \<longrightarrow>
            fst (get_attempt py url project_name a c) = Return (Json j)
            \<and> fst (get_loop py url project_name (a # rest) c) = Some (Json j)
            \<and> take 1 (new_rows c (snd (get_attempt py url project_name a c)))
                = [[I (call_id c), S project_name, F (t_start a), F (t_arrived a - t_start a),
                    S url, S (final_url response), I (int (length (dumps py j))),
                    I (status response), B True, S '''']])"
proof (intro conjI impI)
  assume plain: "\<not> str_in ''json'' ct \<and> body_text response = Inr s"
  then have d: "decode py response = Inr (Text s, length s)"
    using assms(2) by (simp add: decode_def)
  note step = get_attempt_returns [OF assms(1) d assms(3), of url project_name c]
  show "fst (get_attempt py url project_name a c) = Return (Text s)"
    by (simp add: step Let_def)
  show "fst (get_loop py url project_name (a # rest) c) = Some (Text s)"
    by (simp add: step Let_def)
  show "take 1 (new_rows c (snd (get_attempt py url project_name a c)))
      = [[I (call_id c), S project_name, F (t_start a), F (t_arrived a - t_start a),
          S url, S (final_url response), I (int (length s)), I (status response),
          B True, S '''']]"
    by (simp add: step Let_def new_rows_trace)
next
  assume js: "str_in ''json'' ct \<and> body_json response = Inr j"
  then have d: "decode py response = Inr (Json j, length (dumps py j))"
    using assms(2) by (simp add: decode_def)
  note step = get_attempt_returns [OF assms(1) d assms(3), of url project_name c]
  show "fst (get_attempt py url project_name a c) = Return (Json j)"
    by (simp add: step Let_def)
  show "fst (get_loop py url project_name (a # rest) c) = Some (Json j)"
    by (simp add: step Let_def)
  show "take 1 (new_rows c (snd (get_attempt py url project_name a c)))
      = [[I (call_id c), S project_name, F (t_start a), F (t_arrived a - t_start a),
          S url, S (final_url response), I (int (length (dumps py j))),
          I (status response), B True, S '''']]"
    by (simp add: step Let_def new_rows_trace)
qed

text \<open>A \<^verbatim>\<open>text/plain\<close> body of ten characters is logged with size 10, the JSON value
  42 with size 2.\<close>

theorem terminal_response_size_witness:
  "outcome (ex_attempt (Inr (text_response 200))) = Inr (text_response 200)
   \<and> content_type (text_response 200) = Some ''text/plain''
   \<and> status (text_response 200) < 500
   \<and> \<not> str_in ''json'' ''text/plain''
   \<and> body_text (text_response 200) = Inr ''overloaded''
   \<and> fst (get_attempt ex_py ''http://h/x'' ''p'' (ex_attempt (Inr (text_response 200))) (fresh 1))
       = Return (Text ''overloaded'')
   \<and> take 1 (new_rows (fresh 1)
         (snd (get_attempt ex_py ''http://h/x'' ''p'' (ex_attempt (Inr (text_response 200))) (fresh 1))))
       = [[I 0, S ''p'', F 100, F 1, S ''http://h/x'', S ''http://h/x'', I 10, I 200, B True, S '''']]
   \<and> outcome (ex_attempt (Inr (json_response 200))) = Inr (json_response 200)
   \<and> content_type (json_response 200) = Some ''application/json''
   \<and> status (json_response 200) < 500
   \<and> str_in ''json'' ''application/json''
   \<and> body_json (json_response 200) = Inr 42
   \<and> fst (get_attempt ex_py ''http://h/x'' ''p'' (ex_attempt (Inr (json_response 200))) (fresh 1))
       = Return (Json 42)
   \<and> take 1 (new_rows (fresh 1)
         (snd (get_attempt ex_py ''http://h/x'' ''p'' (ex_attempt (Inr (json_response 200))) (fresh 1))))
       = [[I 0, S ''p'', F 100, F 1, S ''http://h/x'', S ''http://h/x'', I 2, I 200, B True, S '''']]"
  using terminal_response_size
    [of "ex_attempt (Inr (text_response 200))" "text_response 200" "''text/plain''"
        "''overloaded''" ex_py "''http://h/x''" "''p''" "fresh 1" "[]" 0]
    terminal_response_size
    [of "ex_attempt (Inr (json_response 200))" "json_response 200" "''application/json''"
        "''x''" ex_py "''http://h/x''" "''p''" "fresh 1" "[]" 42]
  by (simp add: fresh_eval ex_defs string_ops)

text \<open>
  C8 as stated fails at a 503 response of type \<^verbatim>\<open>text/plain\<close>: its text has ten
  characters, and the only row the call logs has size 0.
\<close>

theorem server_error_text_is_logged_with_size_0:
  "content_type (text_response 503) = Some ''text/plain''
   \<and> \<not> str_in ''json'' ''text/plain''
   \<and> body_text (text_response 503) = Inr ''overloaded''
   \<and> length ''overloaded'' = 10
   \<and> map row_response_size (rows (snd (AsyncConnector_get ex_py
         (\<lambda>k. ex_attempt (Inr (text_response 503))) ''http://h/x'' ''p'' (fresh 1))))
       = [I 0]"
  by (simp add: fresh_eval get_defs ex_defs string_ops row_response_size_def)

section \<open>Reading back what was written\<close>

lemma digit_val_digit: "d < 10 \<Longrightarrow> digit_val (''0123456789'' ! d) = Some d"
proof -
  assume "d < 10"
  then have "d \<in> {0, 1, 2, 3, 4, 5, 6, 7, 8, 9}"
    by auto
  then show ?thesis
    by (auto simp: digit_val_def)
qed

lemma digit_val_underscore: "digit_val CHR ''_'' = None"
  by (simp add: digit_val_def)

lemma digits_tail_snoc:
  "digit_val c = Some d \<Longrightarrow> digits_tail acc xs = Some v \<Longrightarrow>
   digits_tail acc (xs @ [c]) = Some (10 * v + d)"
proof (induction acc xs arbitrary: v rule: digits_tail.induct)
  case (1 acc)
  then show ?case by simp
next
  case (2 acc x)
  then show ?case by (auto simp: digit_val_underscore split: option.splits)
next
  case (3 acc x y ys)
  then show ?case
    by (cases ys) (auto simp: digit_val_underscore split: option.splits if_splits)
qed

lemma digits_snoc:
  "digit_val c = Some d \<Longrightarrow> digits xs = Some v \<Longrightarrow> digits (xs @ [c]) = Some (10 * v + d)"
  by (cases xs) (auto simp: digits_def digits_tail_snoc split: option.splits)

lemma digits_str_nat: "digits (str_nat n) = Some n"
proof (induction n rule: str_nat.induct)
  case (1 n)
  show ?case
  proof (cases "n < 10")
    case True
    then show ?thesis
      by (subst str_nat.simps) (simp add: digits_def digit_val_digit)
  next
    case False
    have "digit_val (''0123456789'' ! (n mod 10)) = Some (n mod 10)"
      by (rule digit_val_digit) simp
    from digits_snoc [OF this 1 [OF False]] False
    show ?thesis
      by (subst str_nat.simps) simp
  qed
qed

lemma str_nat_chars: "set (str_nat n) \<subseteq> set ''0123456789'' \<and> str_nat n \<noteq> []"
proof (induction n rule: str_nat.induct)
  case (1 n)
  have d: "''0123456789'' ! k \<in> set ''0123456789''" if "k < 10" for k
    using that by (intro nth_mem) simp
  show ?case
  proof (cases "n < 10")
    case True
    with d [of n] show ?thesis
      by (subst (1 2) str_nat.simps) simp
  next
    case False
    with 1 d [of "n mod 10"] show ?thesis
      by (subst (1 2) str_nat.simps) simp
  qed
qed

lemma strip_id:
  assumes "s \<noteq> []" and "\<not> is_space (hd s)" and "\<not> is_space (last s)"
  shows "strip s = s"
proof -
  from assms(1,2) have "dropWhile is_space s = s"
    by (cases s) simp_all
  moreover from assms(1,3) have "dropWhile is_space (rev s) = rev s"
    by (cases "rev s") (simp_all add: hd_rev [symmetric])
  ultimately show ?thesis
    by (simp add: strip_def)
qed

lemma digit_chars_plain:
  "c \<in> set ''0123456789'' \<Longrightarrow> \<not> is_space c \<and> c \<noteq> CHR ''-'' \<and> c \<noteq> CHR ''+'' \<and> c \<noteq> CHR '';''"
  by (auto simp: is_space_def)

lemma str_nat_no_underscore: "filter (\<lambda>d. d \<noteq> CHR ''_'') (str_nat n) = str_nat n"
proof -
  have "CHR ''_'' \<notin> set (str_nat n)"
    using str_nat_chars [of n] by auto
  then show ?thesis
    by (auto simp: filter_id_conv)
qed

lemma py_int_str_nat:
  assumes "length (str_nat n) \<le> max_str_digits"
  shows "py_int (str_nat n) = Some (int n)"
proof -
  from str_nat_chars [of n]
  have chars: "set (str_nat n) \<subseteq> set ''0123456789''" and ne: "str_nat n \<noteq> []"
    by blast+
  from ne chars have l: "last (str_nat n) \<in> set ''0123456789''"
    and h: "hd (str_nat n) \<in> set ''0123456789''"
    using last_in_set hd_in_set by blast+
  have st: "strip (str_nat n) = str_nat n"
    using ne l h digit_chars_plain by (intro strip_id) blast+
  obtain c cs where n: "str_nat n = c # cs"
    using ne by (cases "str_nat n") auto
  with h have "c \<noteq> CHR ''-''" "c \<noteq> CHR ''+''"
    using digit_chars_plain [of c] by auto
  moreover have "digits (c # cs) = Some n"
    using digits_str_nat [of n] n by simp
  moreover have "\<not> max_str_digits < length (filter (\<lambda>d. d \<noteq> CHR ''_'') (c # cs))"
    using assms str_nat_no_underscore [of n] unfolding n by simp
  ultimately show ?thesis
    by (simp add: st [unfolded n] py_int_def n del: filter.simps)
qed

lemma py_int_minus_str_nat:
  assumes "length (str_nat n) \<le> max_str_digits"
  shows "py_int (CHR ''-'' # str_nat n) = Some (- int n)"
proof -
  from str_nat_chars [of n]
  have chars: "set (str_nat n) \<subseteq> set ''0123456789''" and ne: "str_nat n \<noteq> []"
    by blast+
  from ne chars have l: "last (str_nat n) \<in> set ''0123456789''"
    using last_in_set by blast
  have "strip (CHR ''-'' # str_nat n) = CHR ''-'' # str_nat n"
    using ne l digit_chars_plain [of "last (str_nat n)"]
    by (intro strip_id) (simp_all add: is_space_def)
  moreover have "\<not> max_str_digits < length (filter (\<lambda>d. d \<noteq> CHR ''_'') (str_nat n))"
    using assms by (simp add: str_nat_no_underscore)
  ultimately show ?thesis
    by (simp add: py_int_def digits_str_nat)
qed

lemma py_int_str_int:
  assumes "length (str_nat (nat \<bar>i\<bar>)) \<le> max_str_digits"
  shows "py_int (str_int i) = Some i"
proof (cases "i < 0")
  case True
  then have "nat \<bar>i\<bar> = nat (- i)"
    by simp
  with assms True show ?thesis
    by (simp add: str_int_def py_int_minus_str_nat)
next
  case False
  then have "nat \<bar>i\<bar> = nat i"
    by simp
  with assms False show ?thesis
    by (simp add: str_int_def py_int_str_nat)
qed

lemma universal_newlines_plain: "CR \<notin> set l \<Longrightarrow> universal_newlines l = l"
  by (induction l rule: universal_newlines.induct) auto

lemma universal_newlines_tail:
  "CR \<notin> set l \<Longrightarrow> \<exists>u. universal_newlines (pre @ LF # l) = u @ LF # l"
proof (induction pre rule: universal_newlines.induct)
  case 1
  then have "universal_newlines (LF # l) = LF # l"
    by (intro universal_newlines_plain) (simp add: LF_def CR_def)
  then show ?case by simp
next
  case (2 c)
  have plain: "universal_newlines (LF # l) = LF # l"
    using 2 by (intro universal_newlines_plain) (simp add: LF_def CR_def)
  show ?case
  proof (cases "c = CR")
    case True
    then have "universal_newlines ([c] @ LF # l) = [] @ LF # l"
      using 2 by (simp add: universal_newlines_plain)
    then show ?thesis by blast
  next
    case False
    then have "universal_newlines ([c] @ LF # l) = [c] @ LF # l"
      using plain by simp
    then show ?thesis by blast
  qed
next
  case (3 c d ds)
  show ?case
  proof (cases "c = CR \<and> d = LF")
    case True
    with 3 obtain u where "universal_newlines (ds @ LF # l) = u @ LF # l"
      by auto
    with True have "universal_newlines ((c # d # ds) @ LF # l) = (LF # u) @ LF # l"
      by simp
    then show ?thesis by blast
  next
    case False
    with 3 obtain u where u: "universal_newlines ((d # ds) @ LF # l) = u @ LF # l"
      by (cases "c = CR") auto
    with False have "universal_newlines ((c # d # ds) @ LF # l)
        = ((if c = CR then LF else c) # u) @ LF # l"
      by auto
    then show ?thesis by blast
  qed
qed

lemma cut_lines_Nil: "cut_lines s = [] \<longleftrightarrow> s = []"
  by (cases s) (simp_all split: list.splits)

lemma cut_lines_plain: "LF \<notin> set l \<Longrightarrow> l \<noteq> [] \<Longrightarrow> cut_lines l = [l]"
proof (induction l)
  case Nil
  then show ?case by simp
next
  case (Cons c l)
  then show ?case
    by (cases l) (auto split: list.splits)
qed

lemma cut_lines_after_LF:
  "cut_lines (u @ LF # l) = cut_lines (u @ [LF]) @ cut_lines l"
proof (induction u)
  case Nil
  then show ?case by simp
next
  case (Cons c u)
  have "cut_lines (u @ [LF]) \<noteq> []"
    by (simp add: cut_lines_Nil)
  then obtain x xs where "cut_lines (u @ [LF]) = x # xs"
    by (cases "cut_lines (u @ [LF])") auto
  with Cons show ?case by simp
qed

lemma readlines_last_line:
  assumes "LF \<notin> set l" and "CR \<notin> set l" and "l \<noteq> []"
  shows "last (readlines (pre @ LF # l)) = l \<and> 1 < length (readlines (pre @ LF # l))"
proof -
  from universal_newlines_tail [OF assms(2), of pre]
  obtain u where u: "universal_newlines (pre @ LF # l) = u @ LF # l" ..
  have "cut_lines (u @ [LF]) \<noteq> []"
    by (simp add: cut_lines_Nil)
  moreover have "readlines (pre @ LF # l) = cut_lines (u @ [LF]) @ [l]"
    by (simp only: readlines_def u cut_lines_after_LF [of u l]
        cut_lines_plain [OF assms(1,3)])
  ultimately show ?thesis
    by (cases "cut_lines (u @ [LF])") simp_all
qed

lemma str_split_first:
  "sep \<notin> set xs \<Longrightarrow> str_split sep (xs @ sep # rest) = xs # str_split sep rest"
  by (induction xs) auto

lemma str_int_chars: "CHR '';'' \<notin> set (str_int i) \<and> LF \<notin> set (str_int i) \<and> CR \<notin> set (str_int i)"
  using str_nat_chars [of "nat i"] str_nat_chars [of "nat (- i)"]
  by (auto simp: str_int_def LF_def CR_def)



lemma next_call_id_resumes:
  assumes "LF \<notin> set rest" and "CR \<notin> set rest" and "length (str_nat (nat \<bar>i\<bar>)) \<le> max_str_digits"
  shows "next_call_id (pre @ LF # str_int i @ CHR '';'' # rest) = i + 1"
proof -
  let ?l = "str_int i @ CHR '';'' # rest"
  have "LF \<notin> set ?l" "CR \<notin> set ?l" "?l \<noteq> []"
    using assms str_int_chars [of i] by (auto simp: LF_def CR_def)
  from readlines_last_line [OF this, of pre]
  have "last (readlines (pre @ LF # ?l)) = ?l" and "\<not> length (readlines (pre @ LF # ?l)) \<le> 1"
    by auto
  moreover have "str_split CHR '';'' ?l = str_int i # str_split CHR '';'' rest"
    using str_int_chars [of i] by (intro str_split_first) simp
  ultimately show ?thesis
    by (simp add: next_call_id_def py_int_str_int [OF assms(3)])
qed










lemma py_int_examples:
  "py_int ''7'' = Some 7 \<and> py_int '' -12\<newline>'' = Some (- 12) \<and> py_int ''+1_000'' = Some 1000
   \<and> py_int [CHR 0xA0, CHR ''7''] = Some 7 \<and> py_int [CHR ''7'', CHR 0x85] = Some 7
   \<and> py_int [CHR 0x1F, CHR ''7'', CHR 0x1C] = None \<and> py_int ''1__2'' = None
   \<and> py_int ''_12'' = None \<and> py_int ''12_'' = None \<and> py_int ''+-7'' = None
   \<and> py_int ''- 7'' = None \<and> py_int ''0x10'' = None \<and> py_int ''7.0'' = None
   \<and> py_int '''' = None \<and> py_int '' '' = None"
  by (simp add: string_ops)



section \<open>Call ids within a call and across a restart\<close>

lemma call_ids_append: "call_ids (rs @ ss) = call_ids rs @ call_ids ss"
  by (induction rs rule: call_ids.induct) simp_all

lemma get_attempt_ids:
  "\<exists>ws. trace (snd (get_attempt py url project_name a c)) = trace c @ ws
        \<and> length (call_ids (written ws)) = length (written ws)
        \<and> call_ids (written ws) \<noteq> []
        \<and> sorted_wrt (<) (call_ids (written ws))
        \<and> list_all (\<lambda>i. call_id c \<le> i \<and> i < call_id (snd (get_attempt py url project_name a c)))
             (call_ids (written ws))"
proof (cases "outcome a")
  case (Inl e)
  show ?thesis
    by (simp add: get_attempt_raises [OF Inl] Let_def)
next
  case (Inr response)
  show ?thesis
  proof (cases "decode py response")
    case (Inl e)
    show ?thesis
      by (simp add: get_attempt_undecoded [OF Inr Inl] Let_def)
  next
    case decoded: (Inr rs)
    obtain r sz where rs: "rs = (r, sz)" by (cases rs)
    show ?thesis
    proof (cases "status response \<ge> 500")
      case True
      show ?thesis
        by (simp add: get_attempt_server_error [OF Inr decoded [unfolded rs] True] Let_def)
    next
      case False
      then have "status response < 500" by simp
      from get_attempt_returns [OF Inr decoded [unfolded rs] this]
      show ?thesis
        by (simp add: Let_def)
    qed
  qed
qed

lemma get_loop_ids:
  "\<exists>ws. trace (snd (get_loop py url project_name as c)) = trace c @ ws
        \<and> length (call_ids (written ws)) = length (written ws)
        \<and> (as \<noteq> [] \<longrightarrow> call_ids (written ws) \<noteq> [])
        \<and> sorted_wrt (<) (call_ids (written ws))
        \<and> list_all (\<lambda>i. call_id c \<le> i \<and> i < call_id (snd (get_loop py url project_name as c)))
             (call_ids (written ws))
        \<and> call_id c \<le> call_id (snd (get_loop py url project_name as c))"
proof (induction as arbitrary: c)
  case Nil
  then show ?case by simp
next
  case (Cons a as)
  obtain k c1 where step: "get_attempt py url project_name a c = (k, c1)"
    by (cases "get_attempt py url project_name a c")
  from get_attempt_ids [of py url project_name a c] step
  obtain ws where ws: "trace c1 = trace c @ ws"
      "length (call_ids (written ws)) = length (written ws)"
      "call_ids (written ws) \<noteq> []"
      "sorted_wrt (<) (call_ids (written ws))"
      "list_all (\<lambda>i. call_id c \<le> i \<and> i < call_id c1) (call_ids (written ws))"
    by auto
  from ws(3,5) have le: "call_id c \<le> call_id c1"
    by (cases "call_ids (written ws)") auto
  show ?case
  proof (cases k)
    case (Return r)
    then have "snd (get_loop py url project_name (a # as) c) = c1"
      by (simp add: step)
    then show ?thesis
      using ws le by auto
  next
    case Continue
    then have loop: "get_loop py url project_name (a # as) c = get_loop py url project_name as c1"
      by (simp add: step)
    let ?c2 = "snd (get_loop py url project_name as c1)"
    from Cons.IH [of c1]
    obtain vs where vs: "trace ?c2 = trace c1 @ vs"
        "length (call_ids (written vs)) = length (written vs)"
        "sorted_wrt (<) (call_ids (written vs))"
        "list_all (\<lambda>i. call_id c1 \<le> i \<and> i < call_id ?c2) (call_ids (written vs))"
        "call_id c1 \<le> call_id ?c2"
      by auto
    have "trace ?c2 = trace c @ (ws @ vs)"
      using ws(1) vs(1) by simp
    moreover have "length (call_ids (written (ws @ vs))) = length (written (ws @ vs))"
      using ws(2) vs(2) by (simp add: written_append call_ids_append)
    moreover have "call_ids (written (ws @ vs)) \<noteq> []"
      using ws(3) by (simp add: written_append call_ids_append)
    moreover have "sorted_wrt (<) (call_ids (written (ws @ vs)))"
      using ws(4,5) vs(3,4)
      by (fastforce simp: written_append call_ids_append sorted_wrt_append list_all_iff)
    moreover have "list_all (\<lambda>i. call_id c \<le> i \<and> i < call_id ?c2) (call_ids (written (ws @ vs)))"
      using ws(5) vs(4,5) le
      by (fastforce simp: written_append call_ids_append list_all_iff)
    moreover have "call_id c \<le> call_id ?c2"
      using le vs(5) by simp
    ultimately show ?thesis
      unfolding loop by blast
  qed
qed

lemma new_rows_of_trace: "trace c' = trace c @ ws \<Longrightarrow> new_rows c c' = written ws"
  by (simp add: new_rows_def rows_def written_append)

text \<open>
  Within one call of \<^verbatim>\<open>AsyncConnector.get\<close>: every row written starts with its call
  id, the ids increase strictly from row to row, they are taken from the counter (none
  below its value before the call, all below its value after), and a call that is
  allowed at least one try writes at least one row.
\<close>

lemma call_ids_increase_within_a_call:
  "length (call_ids (new_rows c (snd (AsyncConnector_get py session url project_name c))))
     = length (new_rows c (snd (AsyncConnector_get py session url project_name c)))
   \<and> sorted_wrt (<) (call_ids (new_rows c (snd (AsyncConnector_get py session url project_name c))))
   \<and> list_all (\<lambda>i. call_id c \<le> i
                   \<and> i < call_id (snd (AsyncConnector_get py session url project_name c)))
        (call_ids (new_rows c (snd (AsyncConnector_get py session url project_name c))))
   \<and> (0 < n_tries c \<longrightarrow>
        new_rows c (snd (AsyncConnector_get py session url project_name c)) \<noteq> [])"
proof -
  let ?as = "map session [0..<nat (n_tries c)]"
  from get_loop_ids [of py url project_name ?as c]
  obtain ws where ws: "trace (snd (get_loop py url project_name ?as c)) = trace c @ ws"
      "length (call_ids (written ws)) = length (written ws)"
      "?as \<noteq> [] \<longrightarrow> call_ids (written ws) \<noteq> []"
      "sorted_wrt (<) (call_ids (written ws))"
      "list_all (\<lambda>i. call_id c \<le> i \<and> i < call_id (snd (get_loop py url project_name ?as c)))
             (call_ids (written ws))"
    by blast
  have "written ws \<noteq> []" if "0 < n_tries c"
    using ws(3) that by auto
  then show ?thesis
    using ws(2,4,5) new_rows_of_trace [OF ws(1)]
    by (simp add: AsyncConnector_get_def)
qed

lemma set_str_join: "set (str_join sep fs) \<subseteq> set sep \<union> (\<Union>f\<in>set fs. set f)"
  by (induction sep fs rule: str_join.induct) auto


lemma row_line_resumes:
  assumes "fs \<noteq> []" and "\<forall>f\<in>set fs. LF \<notin> set f \<and> CR \<notin> set f"
    and "length (str_nat (nat \<bar>i\<bar>)) \<le> max_str_digits"
  shows "next_call_id (pre @ LF # str_join '';'' (str_int i # fs)) = i + 1"
proof -
  obtain f gs where fs: "fs = f # gs"
    using assms(1) by (cases fs) auto
  have "LF \<notin> set (str_join '';'' fs) \<and> CR \<notin> set (str_join '';'' fs)"
    using set_str_join [of "'';''" fs] assms(2) by (auto simp: LF_def CR_def)
  then have "next_call_id (pre @ LF # str_int i @ CHR '';'' # str_join '';'' fs) = i + 1"
    using assms(3) by (intro next_call_id_resumes) simp_all
  then show ?thesis
    by (simp add: fs)
qed

text \<open>
  After an attempt that failed to connect, timed out or got a response that could be
  decoded, with no line break in the project name, the URL or a printed float, and a
  call id of at most 4300 digits, the log file read back gives exactly the counter: a
  process that reopens it goes on where this one stopped. (The error text of any other
  exception is a traceback of several lines, and the file read back then gives 0.)
\<close>

lemma reopening_resumes_at_call_id:
  assumes sf: "\<And>t. LF \<notin> set (str_float py t) \<and> CR \<notin> set (str_float py t)"
    and p: "LF \<notin> set project_name \<and> CR \<notin> set project_name"
    and u: "LF \<notin> set url \<and> CR \<notin> set url"
    and a: "outcome a = Inl ClientConnectionError \<or> outcome a = Inl TimeoutError
         \<or> (\<exists>response r sz. outcome a = Inr response \<and> decode py response = Inr (r, sz))"
    and d: "length (str_nat (nat \<bar>call_id (snd (get_attempt py url project_name a c)) - 1\<bar>))
         \<le> max_str_digits"
  shows "next_call_id (logfile (snd (get_attempt py url project_name a c)))
         = call_id (snd (get_attempt py url project_name a c))"
proof -
  let ?c' = "snd (get_attempt py url project_name a c)"
  have "\<exists>pre b err. logfile ?c' = pre @ LF # str_join '';''
          (str_int (call_id ?c' - 1) # [project_name, str_float py (t_start a),
             str_float py (t_handler a - t_start a), url, [], str_int 0, [], b, err])
        \<and> (b = ''True'' \<or> b = ''False'')
        \<and> (err = [] \<or> err = ''Connection error'' \<or> err = ''Timeout error'')"
  proof -
    from a consider
        (conn) "outcome a = Inl ClientConnectionError"
      | (tmo) "outcome a = Inl TimeoutError"
      | (resp) response r sz where "outcome a = Inr response" "decode py response = Inr (r, sz)"
      by blast
    then show ?thesis
    proof cases
      case conn
      have "logfile ?c' = logfile c @ LF # str_join '';''
            (str_int (call_id ?c' - 1) # [project_name, str_float py (t_start a),
               str_float py (t_handler a - t_start a), url, [], str_int 0, [], ''False'', ''Connection error''])"
        by (simp add: get_attempt_raises [OF conn] Let_def get_except_def del: str_join.simps)
      then show ?thesis by blast
    next
      case tmo
      have "logfile ?c' = logfile c @ LF # str_join '';''
            (str_int (call_id ?c' - 1) # [project_name, str_float py (t_start a),
               str_float py (t_handler a - t_start a), url, [], str_int 0, [], ''False'', ''Timeout error''])"
        by (simp add: get_attempt_raises [OF tmo] Let_def get_except_def del: str_join.simps)
      then show ?thesis by blast
    next
      case resp
      show ?thesis
      proof (cases "status response \<ge> 500")
        case True
        have "logfile ?c' = logfile c @ LF # str_join '';''
            (str_int (call_id ?c' - 1) # [project_name, str_float py (t_start a),
               str_float py (t_handler a - t_start a), url, [], str_int 0, [], ''True'', []])"
          by (simp add: get_attempt_server_error [OF resp True] Let_def algebra_simps del: str_join.simps)
        then show ?thesis by blast
      next
        case False
        then have lt: "status response < 500" by simp
        have "logfile ?c' =
            (logfile c @ LF # str_join '';'' (map (str (str_float py))
               [I (call_id c), S project_name, F (t_start a), F (t_arrived a - t_start a),
                S url, S (final_url response), I (int sz), I (status response), B True, S '''']))
            @ LF # str_join '';''
              (str_int (call_id ?c' - 1) # [project_name, str_float py (t_start a),
                 str_float py (t_handler a - t_start a), url, [], str_int 0, [], ''True'', []])"
          by (simp add: get_attempt_returns [OF resp lt] Let_def algebra_simps del: str_join.simps)
        then show ?thesis by blast
      qed
    qed
  qed
  then obtain pre b err where l: "logfile ?c' = pre @ LF # str_join '';''
          (str_int (call_id ?c' - 1) # [project_name, str_float py (t_start a),
             str_float py (t_handler a - t_start a), url, [], str_int 0, [], b, err])"
      and b: "b = ''True'' \<or> b = ''False''"
      and err: "err = [] \<or> err = ''Connection error'' \<or> err = ''Timeout error''"
    by blast
  have "next_call_id (logfile ?c') = call_id ?c' - 1 + 1"
    unfolding l
    using sf [of "t_start a"] sf [of "t_handler a - t_start a"] p u b err str_int_chars [of 0] d
    by (intro row_line_resumes) (auto simp: LF_def CR_def)
  then show ?thesis by simp
qed

end
